theory Spec2Isabelle
  imports Complex_Main
begin

section \<open>Dense arrays over the reals\<close>

text \<open>
  The layers of \<^verbatim>\<open>pylearn2/models/dbm/ising.py\<close> compute with numpy arrays and with
  Theano expressions over them. An expression is identified with the value it denotes,
  and a floating-point number with the real number it stands for: the arithmetic below
  is exact. A one-dimensional array is a list; a two-dimensional array carries its shape,
  as an array with no rows still has a number of columns.
\<close>

type_synonym vec = "real list"

record ndarray2 =
  nrows :: nat
  ncols :: nat
  rows :: "real list list"

text \<open>The representation invariant of a two-dimensional array.\<close>

definition wf2 :: "ndarray2 \<Rightarrow> bool" where
  "wf2 A \<longleftrightarrow> length (rows A) = nrows A \<and> (\<forall>r \<in> set (rows A). length r = ncols A)"

definition entry :: "ndarray2 \<Rightarrow> nat \<Rightarrow> nat \<Rightarrow> real" where
  "entry A i j = rows A ! i ! j"

text \<open>The array of a given shape whose entry at \<open>(i, j)\<close> is \<open>f i j\<close>.\<close>

definition mk_array :: "nat \<Rightarrow> nat \<Rightarrow> (nat \<Rightarrow> nat \<Rightarrow> real) \<Rightarrow> ndarray2" where
  "mk_array r c f = \<lparr>nrows = r, ncols = c, rows = map (\<lambda>i. map (f i) [0..<c]) [0..<r]\<rparr>"

definition mk_vec :: "nat \<Rightarrow> (nat \<Rightarrow> real) \<Rightarrow> vec" where
  "mk_vec n f = map f [0..<n]"

text \<open>\<^verbatim>\<open>np.zeros((r, c))\<close> and \<^verbatim>\<open>np.zeros((n,))\<close>.\<close>

definition np_zeros2 :: "nat \<Rightarrow> nat \<Rightarrow> ndarray2" where
  "np_zeros2 r c = mk_array r c (\<lambda>i j. 0)"

definition np_zeros1 :: "nat \<Rightarrow> vec" where
  "np_zeros1 n = mk_vec n (\<lambda>j. 0)"

text \<open>Elementwise operations with a scalar, on a matrix: \<^verbatim>\<open>f(A)\<close>, \<^verbatim>\<open>c * A\<close>.\<close>

definition map2d :: "(real \<Rightarrow> real) \<Rightarrow> ndarray2 \<Rightarrow> ndarray2" where
  "map2d f A = mk_array (nrows A) (ncols A) (\<lambda>i j. f (entry A i j))"

text \<open>\<^verbatim>\<open>T.sqr\<close>, \<^verbatim>\<open>T.clip\<close> (Theano's scalar \<^verbatim>\<open>Clip\<close>: the lower bound is tested first),
  \<^verbatim>\<open>T.nnet.sigmoid\<close>.\<close>

definition T_sqr :: "real \<Rightarrow> real" where
  "T_sqr x = x * x"

definition T_clip :: "real \<Rightarrow> real \<Rightarrow> real \<Rightarrow> real" where
  "T_clip x lo hi = (if x < lo then lo else if x > hi then hi else x)"

definition T_sigmoid :: "real \<Rightarrow> real" where
  "T_sigmoid x = 1 / (1 + exp (- x))"

text \<open>\<^verbatim>\<open>A.sum(axis=0)\<close>: one sum per column; \<^verbatim>\<open>A.sum(axis=1)\<close>: one sum per row.\<close>

definition sum_axis0 :: "ndarray2 \<Rightarrow> vec" where
  "sum_axis0 A = mk_vec (ncols A) (\<lambda>j. \<Sum>i<nrows A. entry A i j)"

definition sum_axis1 :: "ndarray2 \<Rightarrow> vec" where
  "sum_axis1 A = mk_vec (nrows A) (\<lambda>i. \<Sum>j<ncols A. entry A i j)"

text \<open>\<^verbatim>\<open>A * v\<close> for a matrix \<open>A\<close> of shape \<open>(r, c)\<close> and a vector \<open>v\<close> of shape \<open>(c,)\<close>:
  broadcasting multiplies every row by \<open>v\<close>.\<close>

definition mul_rows :: "ndarray2 \<Rightarrow> vec \<Rightarrow> ndarray2" where
  "mul_rows A v = mk_array (nrows A) (ncols A) (\<lambda>i j. entry A i j * v ! j)"

definition transpose2 :: "ndarray2 \<Rightarrow> ndarray2" where
  "transpose2 A = mk_array (ncols A) (nrows A) (\<lambda>i j. entry A j i)"

text \<open>\<^verbatim>\<open>A.mean(axis=0)\<close>: the mean of every column (numpy divides by the number of rows).\<close>

definition mean_axis0 :: "ndarray2 \<Rightarrow> vec" where
  "mean_axis0 A = mk_vec (ncols A) (\<lambda>j. (\<Sum>i<nrows A. entry A i j) / real (nrows A))"

text \<open>\<^verbatim>\<open>np.clip(x, lo, hi)\<close> is \<^verbatim>\<open>minimum(maximum(x, lo), hi)\<close>.\<close>

definition np_clip :: "real \<Rightarrow> real \<Rightarrow> real \<Rightarrow> real" where
  "np_clip x lo hi = min (max x lo) hi"

section \<open>Errors\<close>

text \<open>
  Every exception the module can raise is a value. The constructors name the cause; the
  Python class is given beside each.
\<close>

datatype error =
    ExpectedBinaryMax real
      \<comment> \<open>\<^verbatim>\<open>ValueError("Expected design matrix to consist entirely of 0s and 1s, but
         maximum value is ...")\<close>, with the maximum found\<close>
  | ZeroSizeArray
      \<comment> \<open>\<^verbatim>\<open>ValueError\<close> of numpy: the maximum of an array with no entry\<close>
  | RngRequired
      \<comment> \<open>\<^verbatim>\<open>ValueError("theano_rng is required; ...")\<close>\<close>
  | BatchSizeMismatch nat nat
      \<comment> \<open>\<^verbatim>\<open>ValueError("self.dbm.batch_size is %d but got shape of %d")\<close>\<close>
  | ShapeMismatch
      \<comment> \<open>\<^verbatim>\<open>ValueError\<close> of Theano: the shapes of the operands do not agree\<close>
  | AssertionError
  | AttributeError
  | TypeError
  | IndexError

definition and_then :: "error + 'a \<Rightarrow> ('a \<Rightarrow> error + 'b) \<Rightarrow> error + 'b" where
  "and_then m f = (case m of Inl e \<Rightarrow> Inl e | Inr v \<Rightarrow> f v)"

section \<open>Theano operations on two operands\<close>

text \<open>
  The operands of these operations come from different arguments of a call, so their
  shapes may disagree; Theano then raises when the expression is evaluated. A vector
  added to a matrix is broadcast over the rows.
\<close>

definition same_shape :: "ndarray2 \<Rightarrow> ndarray2 \<Rightarrow> bool" where
  "same_shape A B \<longleftrightarrow> nrows A = nrows B \<and> ncols A = ncols B"

definition T_add :: "ndarray2 \<Rightarrow> ndarray2 \<Rightarrow> error + ndarray2" where
  "T_add A B =
     (if same_shape A B
      then Inr (mk_array (nrows A) (ncols A) (\<lambda>i j. entry A i j + entry B i j))
      else Inl ShapeMismatch)"

definition T_mul :: "ndarray2 \<Rightarrow> ndarray2 \<Rightarrow> error + ndarray2" where
  "T_mul A B =
     (if same_shape A B
      then Inr (mk_array (nrows A) (ncols A) (\<lambda>i j. entry A i j * entry B i j))
      else Inl ShapeMismatch)"

definition T_add_row :: "ndarray2 \<Rightarrow> vec \<Rightarrow> error + ndarray2" where
  "T_add_row A v =
     (if ncols A = length v
      then Inr (mk_array (nrows A) (ncols A) (\<lambda>i j. entry A i j + v ! j))
      else Inl ShapeMismatch)"

definition T_sub_vec :: "vec \<Rightarrow> vec \<Rightarrow> error + vec" where
  "T_sub_vec u v =
     (if length u = length v
      then Inr (mk_vec (length u) (\<lambda>i. u ! i - v ! i))
      else Inl ShapeMismatch)"

text \<open>\<^verbatim>\<open>T.dot\<close> of a matrix with a matrix, and of a matrix with a vector.\<close>

definition T_dot :: "ndarray2 \<Rightarrow> ndarray2 \<Rightarrow> error + ndarray2" where
  "T_dot A B =
     (if ncols A = nrows B
      then Inr (mk_array (nrows A) (ncols B) (\<lambda>i j. \<Sum>k<ncols A. entry A i k * entry B k j))
      else Inl ShapeMismatch)"

definition T_dot_vec :: "ndarray2 \<Rightarrow> vec \<Rightarrow> error + vec" where
  "T_dot_vec A v =
     (if ncols A = length v
      then Inr (mk_vec (nrows A) (\<lambda>i. \<Sum>k<ncols A. entry A i k * v ! k))
      else Inl ShapeMismatch)"

section \<open>Batches and spaces\<close>

text \<open>
  A batch of states is a design matrix (one example per row), an array of another
  rank (its shape and its entries), or a tuple of batches.
\<close>

datatype batch =
    Design ndarray2
  | Topo "nat list" "real list"
  | Tuple "batch list"

definition is_tuple :: "batch \<Rightarrow> bool" where
  "is_tuple x = (case x of Tuple _ \<Rightarrow> True | _ \<Rightarrow> False)"

text \<open>\<^verbatim>\<open>2. * state_below\<close>: Python has no product of a float with a tuple.\<close>

definition scale_batch :: "real \<Rightarrow> batch \<Rightarrow> error + batch" where
  "scale_batch c x =
     (case x of
        Design A \<Rightarrow> Inr (Design (map2d (\<lambda>v. c * v) A))
      | Topo shp vs \<Rightarrow> Inr (Topo shp (map (\<lambda>v. c * v) vs))
      | Tuple _ \<Rightarrow> Inl TypeError)"

text \<open>
  Modelled from the spec: the space descriptor, whose module \<^verbatim>\<open>pylearn2.space\<close> is not
  among the sources. The layer consumes it through \<^verbatim>\<open>validate(batch)\<close>, a precondition
  check, and \<^verbatim>\<open>format_as(batch, target_space)\<close>, a reshape, and asks it whether it is a
  flat vector space and for its total dimension. A space is the record of what these
  calls answer:
  \<^item> \<open>vector_dim\<close> is \<open>Some d\<close> for \<^verbatim>\<open>VectorSpace(d)\<close> and \<open>None\<close> for any other space;
  \<^item> \<open>validate\<close> gives the error raised, \<open>None\<close> when the batch passes;
  \<^item> \<open>format_as_vector\<close> is \<^verbatim>\<open>space.format_as(batch, VectorSpace(total))\<close>;
  \<^item> \<open>format_from_vector\<close> is \<^verbatim>\<open>VectorSpace(total).format_as(batch, space)\<close>.
\<close>

record Space =
  vector_dim :: "nat option"
  get_total_dimension :: nat
  validate :: "batch \<Rightarrow> error option"
  format_as_vector :: "batch \<Rightarrow> error + batch"
  format_from_vector :: "batch \<Rightarrow> error + batch"

text \<open>Modelled from the spec: the flat vector space of dimension \<open>d\<close>, whose batches are
  design matrices and which formats to itself without change.\<close>

definition VectorSpace :: "nat \<Rightarrow> Space" where
  "VectorSpace d =
     \<lparr>vector_dim = Some d,
      get_total_dimension = d,
      validate = (\<lambda>x. case x of Design _ \<Rightarrow> None | _ \<Rightarrow> Some TypeError),
      format_as_vector = Inr,
      format_from_vector = Inr\<rparr>"

section \<open>Shared variables and the linear transform\<close>

text \<open>
  Modelled from the spec: \<^verbatim>\<open>sharedX\<close> of \<^verbatim>\<open>pylearn2.utils\<close> (not among the sources)
  creates an owned mutable tensor with an optional name. The log lists the names of the
  tensors created so far, oldest first.
\<close>

record 'a shared =
  name :: "string option"
  get_value :: 'a

type_synonym shared_log = "string option list"

definition sharedX :: "'a \<Rightarrow> string option \<Rightarrow> shared_log \<Rightarrow> 'a shared \<times> shared_log" where
  "sharedX v n created = (\<lparr>name = n, get_value = v\<rparr>, created @ [n])"

text \<open>
  Modelled from the spec: the linear-transform abstraction \<^verbatim>\<open>MatrixMul\<close> of
  \<^verbatim>\<open>pylearn2.linear.matrixmul\<close> (not among the sources). It owns the weight matrix \<open>W\<close>
  of shape \<open>(input_dim, dim)\<close> and is consumed via "apply forward" (\<^verbatim>\<open>lmul\<close>, the product
  of a batch of shape \<open>(batch, input_dim)\<close> with \<open>W\<close>), "apply transpose" (\<^verbatim>\<open>lmul_T\<close>, the
  product of a batch of shape \<open>(batch, dim)\<close> with the transpose of \<open>W\<close>) and "return owned
  parameter(s)" (\<^verbatim>\<open>get_params\<close>). The forward product is defined on design matrices.
\<close>

record MatrixMul =
  W_shared :: "ndarray2 shared"

definition get_params :: "MatrixMul \<Rightarrow> ndarray2 shared" where
  "get_params t = W_shared t"

definition lmul :: "MatrixMul \<Rightarrow> batch \<Rightarrow> error + ndarray2" where
  "lmul t x =
     (case x of
        Design A \<Rightarrow> T_dot A (get_value (W_shared t))
      | _ \<Rightarrow> Inl TypeError)"

definition lmul_T :: "MatrixMul \<Rightarrow> ndarray2 \<Rightarrow> error + ndarray2" where
  "lmul_T t x = T_dot x (transpose2 (get_value (W_shared t)))"

section \<open>Random sources\<close>

text \<open>
  The numpy generator \<^verbatim>\<open>dbm.rng\<close> is the stream of the draws from \<open>[0, 1)\<close> it is still to
  make. \<^verbatim>\<open>rng.uniform(low, high, (r, c))\<close> takes the next \<open>r * c\<close> of them, row by row,
  and leaves the rest.
\<close>

type_synonym numpy_rng = "nat \<Rightarrow> real"

definition rng_uniform ::
  "numpy_rng \<Rightarrow> real \<Rightarrow> real \<Rightarrow> nat \<Rightarrow> nat \<Rightarrow> ndarray2 \<times> numpy_rng" where
  "rng_uniform g low high r c =
     (mk_array r c (\<lambda>i j. low + (high - low) * g (i * c + j)), (\<lambda>k. g (k + r * c)))"

text \<open>
  The Theano random stream passed to \<^verbatim>\<open>sample\<close> is given by the uniform draw it makes
  for each position; \<^verbatim>\<open>binomial(p=p, n=1, size=p.shape)\<close> is 1 where the draw is below
  \<open>p\<close> and 0 elsewhere.
\<close>

type_synonym theano_rng = "nat \<Rightarrow> nat \<Rightarrow> real"

definition rng_binomial :: "theano_rng \<Rightarrow> ndarray2 \<Rightarrow> ndarray2" where
  "rng_binomial u p =
     mk_array (nrows p) (ncols p) (\<lambda>i j. if u i j < entry p i j then 1 else 0)"

section \<open>Bias initialisation from marginals\<close>

text \<open>A dataset: what \<^verbatim>\<open>get_design_matrix()\<close> returns, and the attribute \<^verbatim>\<open>y\<close>.\<close>

record dataset =
  get_design_matrix :: ndarray2
  dataset_y :: "ndarray2 option"

text \<open>\<^verbatim>\<open>X.max()\<close> and \<^verbatim>\<open>X.min()\<close> over all entries; numpy raises on an array without
  entries.\<close>

definition np_max :: "ndarray2 \<Rightarrow> error + real" where
  "np_max A =
     (if concat (rows A) = [] then Inl ZeroSizeArray else Inr (Max (set (concat (rows A)))))"

definition np_min :: "ndarray2 \<Rightarrow> error + real" where
  "np_min A =
     (if concat (rows A) = [] then Inl ZeroSizeArray else Inr (Min (set (concat (rows A)))))"

definition init_tanh_bias_from_marginals :: "dataset \<Rightarrow> bool \<Rightarrow> error + vec" where
  "init_tanh_bias_from_marginals ds use_y =
     (case (if use_y then dataset_y ds else Some (get_design_matrix ds)) of
        None \<Rightarrow> Inl AttributeError
      | Some X \<Rightarrow>
          and_then (np_max X) (\<lambda>mx.
          if \<not> (mx = 1) then Inl (ExpectedBinaryMax mx)
          else
            and_then (np_min X) (\<lambda>mn.
            if \<not> (mn = - 1) then Inl AssertionError
            else
              let mean = mean_axis0 X;
                  mean = map (\<lambda>m. np_clip m (1 / 10 ^ 7) (1 - 1 / 10 ^ 7)) mean;
                  init_bias = map artanh mean
              in Inr init_bias)))"

section \<open>The visible layer\<close>

record IsingVisible =
  nvis :: nat
  space :: Space
  visible_input_space :: Space
  bias :: "vec shared"

text \<open>
  \<^verbatim>\<open>IsingVisible.__init__(nvis, bias_from_marginals)\<close>. The bias tensor is created by the
  last statement, after the initial bias has been computed.
\<close>

definition IsingVisible_init ::
  "nat \<Rightarrow> dataset option \<Rightarrow> shared_log \<Rightarrow> (error + IsingVisible) \<times> shared_log" where
  "IsingVisible_init n bias_from_marginals created =
     (case (case bias_from_marginals of
              None \<Rightarrow> Inr (np_zeros1 n)
            | Some ds \<Rightarrow> init_tanh_bias_from_marginals ds False) of
        Inl e \<Rightarrow> (Inl e, created)
      | Inr init_bias \<Rightarrow>
          let (bias_var, created') = sharedX init_bias (Some ''visible_bias'') created
          in (Inr \<lparr>nvis = n, space = VectorSpace n, visible_input_space = VectorSpace n,
                   bias = bias_var\<rparr>,
              created'))"

section \<open>The hidden layer\<close>

text \<open>The part of the model object the layer reads: \<^verbatim>\<open>dbm.rng\<close> and
  \<^verbatim>\<open>dbm.batch_size\<close>.\<close>

record DBM =
  rng :: numpy_rng
  batch_size :: nat

text \<open>
  The attributes of an \<^verbatim>\<open>IsingHidden\<close> after \<^verbatim>\<open>__init__\<close>. The attribute \<^verbatim>\<open>dbm\<close> is set
  by the model when it takes the layer in, and is absent (\<open>None\<close>) before.
\<close>

record IsingHidden =
  dim :: nat
  layer_name :: string
  irange :: "real option"
  sparse_init :: "nat option"
  sparse_stdev :: real
  include_prob :: real
  init_bias :: real
  W_lr_scale :: "real option"
  b_lr_scale :: "real option"
  max_col_norm :: "real option"
  self_b :: "vec shared"
  dbm :: "DBM option"

text \<open>The attributes \<^verbatim>\<open>set_input_space\<close> adds. A layer of this type has been set up: the
  methods that read the transformer take no other.\<close>

record IsingHidden_setup = IsingHidden +
  input_space :: Space
  requires_reformat :: bool
  input_dim :: nat
  desired_space :: "Space option"
  output_space :: Space
  transformer :: MatrixMul

definition IsingHidden_init ::
  "nat \<Rightarrow> string \<Rightarrow> real option \<Rightarrow> nat option \<Rightarrow> real \<Rightarrow> real \<Rightarrow> real \<Rightarrow> real option \<Rightarrow>
   real option \<Rightarrow> real option \<Rightarrow> shared_log \<Rightarrow> IsingHidden \<times> shared_log" where
  "IsingHidden_init dim' layer_name' irange' sparse_init' sparse_stdev' include_prob' init_bias'
       W_lr_scale' b_lr_scale' max_col_norm' created =
     (let (b', created') =
            sharedX (map (\<lambda>x. x + init_bias') (np_zeros1 dim')) (Some (layer_name' @ ''_b''))
              created
      in (\<lparr>dim = dim', layer_name = layer_name', irange = irange', sparse_init = sparse_init',
           sparse_stdev = sparse_stdev', include_prob = include_prob', init_bias = init_bias',
           W_lr_scale = W_lr_scale', b_lr_scale = b_lr_scale', max_col_norm = max_col_norm',
           self_b = b', dbm = None\<rparr>,
          created'))"

text \<open>
  \<^verbatim>\<open>set_input_space(space)\<close>. The initial weights are an error or the matrix drawn
  together with the generator left; then the shared variable is created and named, and
  the transformer built around it.
\<close>

definition set_input_space ::
  "IsingHidden \<Rightarrow> Space \<Rightarrow> shared_log \<Rightarrow> (error + IsingHidden_setup) \<times> shared_log" where
  "set_input_space L sp created =
     (let reformat = (vector_dim sp = None);
          n_in = (case vector_dim sp of Some d \<Rightarrow> d | None \<Rightarrow> get_total_dimension sp);
          desired = (if reformat then Some (VectorSpace n_in) else None);
          out_space = VectorSpace (dim L)
      in case dbm L of
           None \<Rightarrow> (Inl AttributeError, created)
         | Some model \<Rightarrow>
             (case (case irange L of
                      Some ir \<Rightarrow>
                        if sparse_init L \<noteq> None then Inl AssertionError
                        else
                          let (U, g1) = rng_uniform (rng model) (- ir) ir n_in (dim L);
                              (V, g2) = rng_uniform g1 0 1 n_in (dim L)
                          in Inr (mk_array n_in (dim L)
                                    (\<lambda>i j. entry U i j *
                                       (if entry V i j < include_prob L then 1 else 0)),
                                  g2)
                    | None \<Rightarrow>
                        if sparse_init L = None then Inl AssertionError
                        else
                          let W = np_zeros2 n_in (dim L);
                              W = map2d (\<lambda>x. x * sparse_stdev L) W
                          in Inr (W, rng model)) of
                Inl e \<Rightarrow> (Inl e, created)
              | Inr (W, g) \<Rightarrow>
                  let (W_var, created') = sharedX W None created;
                      W_var = W_var\<lparr>name := Some (layer_name L @ ''_W'')\<rparr>;
                      t = \<lparr>W_shared = W_var\<rparr>
                  in if name (get_params t) = None then (Inl AssertionError, created')
                     else
                       (Inr (IsingHidden.extend (L\<lparr>dbm := Some (model\<lparr>rng := g\<rparr>)\<rparr>)
                               (IsingHidden_setup.fields sp reformat n_in desired out_space t)),
                        created')))"

text \<open>
  \<^verbatim>\<open>censor_updates(updates)\<close>. The dictionary of proposed updates is keyed by the shared
  variables; the function changes the entry of \<open>W\<close> and the result is the dictionary after
  the call. All the shapes come from the proposed matrix, so no operation can fail.
\<close>

definition censor_updates ::
  "IsingHidden_setup \<Rightarrow> (ndarray2 shared \<rightharpoonup> ndarray2) \<Rightarrow> (ndarray2 shared \<rightharpoonup> ndarray2)" where
  "censor_updates L updates =
     (case max_col_norm L of
        None \<Rightarrow> updates
      | Some m \<Rightarrow>
          let W = get_params (transformer L)
          in case updates W of
               None \<Rightarrow> updates
             | Some updated_W \<Rightarrow>
                 let col_norms = map sqrt (sum_axis0 (map2d T_sqr updated_W));
                     desired_norms = map (\<lambda>x. T_clip x 0 m) col_norms
                 in updates(W \<mapsto>
                      mul_rows updated_W
                        (map2 (/) desired_norms (map (\<lambda>n. 1 / 10 ^ 7 + n) col_norms))))"

text \<open>
  The layer above, as far as this layer uses it: its name and its
  \<^verbatim>\<open>downward_message\<close>, which takes the state of that layer (of any type) to a message in
  this layer's own space.
\<close>

record 's upper_layer =
  above_layer_name :: string
  above_downward_message :: "'s \<Rightarrow> error + ndarray2"

text \<open>
  The loop over \<^verbatim>\<open>get_debug_values(state_below)\<close>, on the shapes of the values it yields
  (none unless Theano computes test values). \<^verbatim>\<open>sb.shape[0]\<close> fails on an array of rank 0,
  and \<^verbatim>\<open>reduce\<close> without an initial value fails on the empty rest of a shape.
\<close>

fun check_debug_values :: "DBM option \<Rightarrow> nat \<Rightarrow> nat list list \<Rightarrow> error option" where
  "check_debug_values model n_in [] = None"
| "check_debug_values model n_in (sb_shape # more_shapes) =
     (case sb_shape of
        [] \<Rightarrow> Some IndexError
      | s0 # s_rest \<Rightarrow>
          (case model of
             None \<Rightarrow> Some AttributeError
           | Some m \<Rightarrow>
               if s0 \<noteq> batch_size m then Some (BatchSizeMismatch (batch_size m) s0)
               else if s_rest = [] then Some TypeError
               else if \<not> (prod_list s_rest = n_in) then Some AssertionError
               else check_debug_values model n_in more_shapes))"

text \<open>
  The opening statements of \<^verbatim>\<open>expected_energy_term\<close> and of \<^verbatim>\<open>mf_update\<close>, the same in
  both: validate \<^verbatim>\<open>state_below\<close>, and when the layer requires it check the debug values
  and format the batch as a design matrix.
\<close>

definition validate_and_reformat ::
  "IsingHidden_setup \<Rightarrow> nat list list \<Rightarrow> batch \<Rightarrow> error + batch" where
  "validate_and_reformat L debug_shapes state_below =
     (case validate (input_space L) state_below of
        Some e \<Rightarrow> Inl e
      | None \<Rightarrow>
          if requires_reformat L then
            (case (if \<not> is_tuple state_below
                   then check_debug_values (dbm L) (input_dim L) debug_shapes
                   else None) of
               Some e \<Rightarrow> Inl e
             | None \<Rightarrow> format_as_vector (input_space L) state_below)
          else Inr state_below)"

text \<open>The message of the layer above in \<^verbatim>\<open>sample\<close>: a missing \<^verbatim>\<open>layer_above\<close> fails at the
  attribute access.\<close>

definition message_for_sample ::
  "'s option \<Rightarrow> 's upper_layer option \<Rightarrow> error + ndarray2 option" where
  "message_for_sample state_above layer_above =
     (case state_above of
        None \<Rightarrow> Inr None
      | Some sa \<Rightarrow>
          (case layer_above of
             None \<Rightarrow> Inl AttributeError
           | Some la \<Rightarrow> and_then (above_downward_message la sa) (\<lambda>msg. Inr (Some msg))))"

text \<open>\<^verbatim>\<open>sample(state_below, state_above, layer_above, theano_rng)\<close>.\<close>

definition sample ::
  "IsingHidden_setup \<Rightarrow> batch \<Rightarrow> 's option \<Rightarrow> 's upper_layer option \<Rightarrow> theano_rng option \<Rightarrow>
   error + ndarray2" where
  "sample L state_below state_above layer_above t_rng =
     (case t_rng of
        None \<Rightarrow> Inl RngRequired
      | Some u \<Rightarrow>
          and_then (message_for_sample state_above layer_above) (\<lambda>msg.
          and_then (if requires_reformat L then format_as_vector (input_space L) state_below
                    else Inr state_below) (\<lambda>state_below.
          and_then (lmul (transformer L) state_below) (\<lambda>wx.
          and_then (T_add_row wx (get_value (self_b L))) (\<lambda>z.
          and_then (case msg of None \<Rightarrow> Inr z | Some m \<Rightarrow> T_add z m) (\<lambda>z.
          let on_prob = map2d (\<lambda>x. T_sigmoid (2 * x)) z;
              samples = map2d (\<lambda>x. x * 2 - 1) (rng_binomial u on_prob)
          in Inr samples))))))"

text \<open>\<^verbatim>\<open>downward_message(downward_state)\<close>.\<close>

definition downward_message :: "IsingHidden_setup \<Rightarrow> ndarray2 \<Rightarrow> error + batch" where
  "downward_message L downward_state =
     and_then (lmul_T (transformer L) downward_state) (\<lambda>rval.
     if requires_reformat L then format_from_vector (input_space L) (Design rval)
     else Inr (Design rval))"

text \<open>
  \<^verbatim>\<open>expected_energy_term(state, average, state_below, average_below)\<close>. The state is a
  design matrix and the bias a vector, so the result has rank 1 and the closing assertion
  holds.
\<close>

definition expected_energy_term ::
  "IsingHidden_setup \<Rightarrow> nat list list \<Rightarrow> ndarray2 \<Rightarrow> bool \<Rightarrow> batch \<Rightarrow> bool \<Rightarrow> error + vec" where
  "expected_energy_term L debug_shapes state average state_below average_below =
     and_then (validate_and_reformat L debug_shapes state_below) (\<lambda>state_below.
     and_then (T_dot_vec state (get_value (self_b L))) (\<lambda>bias_term.
     and_then (lmul (transformer L) state_below) (\<lambda>wx.
     and_then (T_mul wx state) (\<lambda>prod.
     let weights_term = sum_axis1 prod
     in T_sub_vec (map uminus bias_term) weights_term))))"

text \<open>
  \<^verbatim>\<open>mf_update(state_below, state_above, layer_above, double_weights, iter_name)\<close>. The
  names given to the intermediate expressions label them and leave their values alone;
  \<open>iter_name\<close> is used for nothing else.
\<close>

definition message_for_mf_update ::
  "'s option \<Rightarrow> 's upper_layer option \<Rightarrow> error + ndarray2 option" where
  "message_for_mf_update state_above layer_above =
     (case state_above of
        None \<Rightarrow> Inr None
      | Some sa \<Rightarrow>
          (case layer_above of
             None \<Rightarrow> Inl AssertionError
           | Some la \<Rightarrow> and_then (above_downward_message la sa) (\<lambda>msg. Inr (Some msg))))"

definition mf_update ::
  "IsingHidden_setup \<Rightarrow> nat list list \<Rightarrow> batch \<Rightarrow> 's option \<Rightarrow> 's upper_layer option \<Rightarrow> bool \<Rightarrow>
   string option \<Rightarrow> error + ndarray2" where
  "mf_update L debug_shapes state_below state_above layer_above double_weights iter_name =
     and_then (validate_and_reformat L debug_shapes state_below) (\<lambda>state_below.
     and_then (message_for_mf_update state_above layer_above) (\<lambda>msg.
     and_then (if double_weights then scale_batch 2 state_below else Inr state_below)
       (\<lambda>state_below.
     and_then (lmul (transformer L) state_below) (\<lambda>wx.
     and_then (T_add_row wx (get_value (self_b L))) (\<lambda>z.
     and_then (case msg of None \<Rightarrow> Inr z | Some m \<Rightarrow> T_add z m) (\<lambda>z.
     let h = map2d tanh z
     in Inr h))))))"

section \<open>Notions of the specification\<close>

text \<open>The L2 norm of column \<open>j\<close> of a matrix.\<close>

definition l2_col_norm :: "ndarray2 \<Rightarrow> nat \<Rightarrow> real" where
  "l2_col_norm A j = sqrt (\<Sum>i<nrows A. (entry A i j)\<^sup>2)"

text \<open>The weight matrix \<open>W\<close> and the bias vector \<open>b\<close> a layer holds.\<close>

definition weights :: "IsingHidden_setup \<Rightarrow> ndarray2" where
  "weights L = get_value (get_params (transformer L))"

definition biases :: "IsingHidden_setup \<Rightarrow> vec" where
  "biases L = get_value (self_b L)"

text \<open>The shapes of the parameters of a layer that has been set up: \<open>W\<close> is a matrix of
  shape \<open>(input_dim, dim)\<close> and \<open>b\<close> a vector of length \<open>dim\<close>. \<^verbatim>\<open>__init__\<close> and
  \<^verbatim>\<open>set_input_space\<close> establish them (lemma \<open>set_input_space_layer_ok\<close>).\<close>

definition layer_ok :: "IsingHidden_setup \<Rightarrow> bool" where
  "layer_ok L \<longleftrightarrow>
     wf2 (weights L) \<and> nrows (weights L) = input_dim L \<and> ncols (weights L) = dim L \<and>
     length (biases L) = dim L"

text \<open>The factor by which \<^verbatim>\<open>censor_updates\<close> with bound \<open>m\<close> multiplies column \<open>j\<close> of
  the proposed matrix \<open>U\<close>: \<open>clip(n, 0, m) / (1e-7 + n)\<close>, with \<open>n\<close> the norm of the column.\<close>

definition column_scale :: "real \<Rightarrow> ndarray2 \<Rightarrow> nat \<Rightarrow> real" where
  "column_scale m U j = T_clip (l2_col_norm U j) 0 m / (1 / 10 ^ 7 + l2_col_norm U j)"

section \<open>A concrete layer\<close>

text \<open>
  A hidden layer of one unit over a flat input space of dimension 2, set up, with weights
  \<open>W = [[1], [2]]\<close>, bias \<open>b = [1]\<close> and a bound of 2 on the column norms.
\<close>

definition example_W_var :: "ndarray2 shared" where
  "example_W_var = \<lparr>name = Some ''h1_W'', get_value = \<lparr>nrows = 2, ncols = 1, rows = [[1], [2]]\<rparr>\<rparr>"

definition example_layer :: IsingHidden_setup where
  "example_layer =
     \<lparr>dim = 1, layer_name = ''h1'', irange = Some (1 / 10), sparse_init = None,
      sparse_stdev = 1, include_prob = 1, init_bias = 1, W_lr_scale = None,
      b_lr_scale = None, max_col_norm = Some 2,
      self_b = \<lparr>name = Some ''h1_b'', get_value = [1]\<rparr>,
      dbm = Some \<lparr>rng = (\<lambda>k. 0), batch_size = 1\<rparr>,
      input_space = VectorSpace 2, requires_reformat = False, input_dim = 2,
      desired_space = None, output_space = VectorSpace 1,
      transformer = \<lparr>W_shared = example_W_var\<rparr>\<rparr>"

text \<open>A batch of one example for the layer below, a state of the layer, and a layer above
  whose state is a number and whose downward message is that number.\<close>

definition example_below :: ndarray2 where
  "example_below = \<lparr>nrows = 1, ncols = 2, rows = [[1, 1]]\<rparr>"

definition example_state :: ndarray2 where
  "example_state = \<lparr>nrows = 1, ncols = 1, rows = [[- 1]]\<rparr>"

definition example_above :: "real upper_layer" where
  "example_above =
     \<lparr>above_layer_name = ''h2'',
      above_downward_message = (\<lambda>s. Inr \<lparr>nrows = 2, ncols = 1, rows = [[s], [- s]]\<rparr>)\<rparr>"

text \<open>A batch of two examples for the layer below.\<close>

definition example_below2 :: ndarray2 where
  "example_below2 = \<lparr>nrows = 2, ncols = 2, rows = [[1, 1], [1, - 1]]\<rparr>"

text \<open>A proposed update of \<open>W\<close> whose only column, \<open>(3, 4)\<close>, has norm 5.\<close>

definition example_proposed :: ndarray2 where
  "example_proposed = \<lparr>nrows = 2, ncols = 1, rows = [[3], [4]]\<rparr>"

definition example_updates :: "ndarray2 shared \<rightharpoonup> ndarray2" where
  "example_updates = [example_W_var \<mapsto> example_proposed]"

text \<open>A proposed update whose only column, \<open>(1, 0)\<close>, has norm 1, below the bound.\<close>

definition example_small :: ndarray2 where
  "example_small = \<lparr>nrows = 2, ncols = 1, rows = [[1], [0]]\<rparr>"

definition small_updates :: "ndarray2 shared \<rightharpoonup> ndarray2" where
  "small_updates = [example_W_var \<mapsto> example_small]"

section \<open>Concrete datasets and configurations\<close>

text \<open>A marginal dataset with the values \<open>-1\<close>, \<open>0.5\<close> and \<open>1\<close>, and one with the values
  \<open>-1\<close> and \<open>0.5\<close> only.\<close>

definition mixed_dataset :: dataset where
  "mixed_dataset =
     \<lparr>get_design_matrix = \<lparr>nrows = 3, ncols = 1, rows = [[- 1], [1 / 2], [1]]\<rparr>,
      dataset_y = None\<rparr>"

definition half_dataset :: dataset where
  "half_dataset =
     \<lparr>get_design_matrix = \<lparr>nrows = 2, ncols = 1, rows = [[- 1], [1 / 2]]\<rparr>,
      dataset_y = None\<rparr>"

text \<open>A model to attach a layer to, and two layers as \<^verbatim>\<open>__init__\<close> builds them: one with
  \<^verbatim>\<open>sparse_init\<close> alone (and \<^verbatim>\<open>sparse_stdev = 3\<close>), one with \<^verbatim>\<open>irange\<close> and
  \<^verbatim>\<open>sparse_init\<close> both.\<close>

definition attached :: DBM where
  "attached = \<lparr>rng = (\<lambda>k. 1 / 2), batch_size = 1\<rparr>"

definition sparse_config :: IsingHidden where
  "sparse_config =
     (fst (IsingHidden_init 1 ''h1'' None (Some 15) 3 1 0 None None (Some 2) []))
       \<lparr>dbm := Some attached\<rparr>"

definition both_config :: IsingHidden where
  "both_config =
     (fst (IsingHidden_init 1 ''h1'' (Some (1 / 10)) (Some 15) 3 1 0 None None (Some 2) []))
       \<lparr>dbm := Some attached\<rparr>"

section \<open>Properties of the array operations\<close>

lemma wf2_mk_array [simp]: "wf2 (mk_array r c f)"
  by (simp add: wf2_def mk_array_def)

lemma nrows_mk_array [simp]: "nrows (mk_array r c f) = r"
  by (simp add: mk_array_def)

lemma ncols_mk_array [simp]: "ncols (mk_array r c f) = c"
  by (simp add: mk_array_def)

lemma entry_mk_array [simp]: "i < r \<Longrightarrow> j < c \<Longrightarrow> entry (mk_array r c f) i j = f i j"
  by (simp add: mk_array_def entry_def)

lemma mk_array_cong:
  "(\<And>i j. i < r \<Longrightarrow> j < c \<Longrightarrow> f i j = g i j) \<Longrightarrow> mk_array r c f = mk_array r c g"
  by (simp add: mk_array_def)

lemma mk_array_cong' [cong]:
  "r = r' \<Longrightarrow> c = c' \<Longrightarrow> (\<And>i j. i < r' \<Longrightarrow> j < c' \<Longrightarrow> f i j = g i j) \<Longrightarrow>
   mk_array r c f = mk_array r' c' g"
  by (simp add: mk_array_def)

lemma mk_vec_cong' [cong]:
  "n = n' \<Longrightarrow> (\<And>i. i < n' \<Longrightarrow> f i = g i) \<Longrightarrow> mk_vec n f = mk_vec n' g"
  by (simp add: mk_vec_def)

lemma length_mk_vec [simp]: "length (mk_vec n f) = n"
  by (simp add: mk_vec_def)

lemma nth_mk_vec [simp]: "i < n \<Longrightarrow> mk_vec n f ! i = f i"
  by (simp add: mk_vec_def)

lemma mk_vec_cong: "(\<And>i. i < n \<Longrightarrow> f i = g i) \<Longrightarrow> mk_vec n f = mk_vec n g"
  by (simp add: mk_vec_def)

lemma map2d_mk_array: "map2d g (mk_array r c f) = mk_array r c (\<lambda>i j. g (f i j))"
  by (simp add: map2d_def)

lemma T_add_row_entries:
  assumes "length v = c"
  shows "T_add_row (mk_array r c f) v = Inr (mk_array r c (\<lambda>i j. f i j + v ! j))"
  using assms by (simp add: T_add_row_def)

lemma T_add_entries:
  assumes "nrows m = r" and "ncols m = c"
  shows "T_add (mk_array r c f) m = Inr (mk_array r c (\<lambda>i j. f i j + entry m i j))"
  using assms by (simp add: T_add_def same_shape_def)

section \<open>The column-norm projection\<close>

text \<open>The column norms \<^verbatim>\<open>censor_updates\<close> computes are the L2 norms of the columns.\<close>

lemma col_norms_nth:
  "j < ncols A \<Longrightarrow> map sqrt (sum_axis0 (map2d T_sqr A)) ! j = l2_col_norm A j"
  by (simp add: sum_axis0_def map2d_def l2_col_norm_def T_sqr_def power2_eq_square)

lemma l2_col_norm_nonneg: "0 \<le> l2_col_norm A j"
  by (simp add: l2_col_norm_def sum_nonneg)

text \<open>The projected matrix, entry by entry.\<close>

lemma projected_entries:
  "mul_rows U
     (map2 (/) (map (\<lambda>x. T_clip x 0 m) (map sqrt (sum_axis0 (map2d T_sqr U))))
        (map (\<lambda>n. 1 / 10 ^ 7 + n) (map sqrt (sum_axis0 (map2d T_sqr U))))) =
   mk_array (nrows U) (ncols U) (\<lambda>i j. entry U i j * column_scale m U j)"
proof -
  define cn where "cn = map sqrt (sum_axis0 (map2d T_sqr U))"
  have len: "length cn = ncols U"
    by (simp add: cn_def sum_axis0_def map2d_def)
  have nth: "cn ! j = l2_col_norm U j" if "j < ncols U" for j
    using that by (simp add: cn_def col_norms_nth)
  have "mul_rows U (map2 (/) (map (\<lambda>x. T_clip x 0 m) cn) (map (\<lambda>n. 1 / 10 ^ 7 + n) cn)) =
    mk_array (nrows U) (ncols U) (\<lambda>i j. entry U i j * column_scale m U j)"
    unfolding mul_rows_def column_scale_def
    by (rule mk_array_cong) (simp add: len nth)
  then show ?thesis
    by (simp only: cn_def)
qed

lemma censor_updates_result:
  assumes "max_col_norm L = Some m" and "updates (get_params (transformer L)) = Some U"
  shows "censor_updates L updates =
    updates(get_params (transformer L) \<mapsto>
      mk_array (nrows U) (ncols U) (\<lambda>i j. entry U i j * column_scale m U j))"
  using assms unfolding censor_updates_def Let_def
  by (simp only: option.case projected_entries)

lemma l2_col_norm_scaled:
  assumes "j < c"
  shows "l2_col_norm (mk_array r c (\<lambda>i j. entry U i j * s j)) j =
         sqrt (\<Sum>i<r. (entry U i j)\<^sup>2) * \<bar>s j\<bar>"
proof -
  have "(\<Sum>i<r. (entry (mk_array r c (\<lambda>i j. entry U i j * s j)) i j)\<^sup>2) =
        (\<Sum>i<r. (entry U i j)\<^sup>2 * (s j)\<^sup>2)"
    using assms by (intro sum.cong) (simp_all add: power_mult_distrib)
  also have "\<dots> = (\<Sum>i<r. (entry U i j)\<^sup>2) * (s j)\<^sup>2"
    by (simp add: sum_distrib_right)
  finally show ?thesis
    by (simp add: l2_col_norm_def real_sqrt_mult)
qed

lemma shrink_le:
  fixes n d e :: real
  assumes "0 \<le> n" "0 \<le> d" "0 < e"
  shows "n * \<bar>d / (e + n)\<bar> \<le> d"
proof -
  have pos: "0 < e + n"
    using assms by simp
  have "\<bar>d / (e + n)\<bar> = d / (e + n)"
    using assms(2) pos by (intro abs_of_nonneg divide_nonneg_nonneg) simp_all
  then have "n * \<bar>d / (e + n)\<bar> = d * (n / (e + n))"
    by simp
  also have "\<dots> \<le> d * 1"
  proof (rule mult_left_mono)
    show "n / (e + n) \<le> 1"
      using pos assms(3) by (simp add: divide_le_eq)
  qed (rule assms(2))
  finally show ?thesis by simp
qed

lemma l2_col_norm_projected:
  assumes "j < ncols U"
  shows "l2_col_norm (mk_array (nrows U) (ncols U) (\<lambda>i j. entry U i j * column_scale m U j)) j =
         l2_col_norm U j * \<bar>column_scale m U j\<bar>"
proof -
  have "l2_col_norm (mk_array (nrows U) (ncols U) (\<lambda>i j. entry U i j * column_scale m U j)) j =
        sqrt (\<Sum>i<nrows U. (entry U i j)\<^sup>2) * \<bar>column_scale m U j\<bar>"
    by (rule l2_col_norm_scaled [where s = "column_scale m U", OF assms])
  then show ?thesis
    by (simp only: l2_col_norm_def)
qed

text \<open>After the projection the norm of a column is at most the clipped norm, hence at most
  the bound, whenever the bound is not negative.\<close>

lemma projected_col_norm_le:
  assumes "0 \<le> m" and "j < ncols U"
  shows "l2_col_norm (mk_array (nrows U) (ncols U) (\<lambda>i j. entry U i j * column_scale m U j)) j
         \<le> m"
proof -
  let ?n = "l2_col_norm U j"
  let ?d = "T_clip ?n 0 m"
  have n: "0 \<le> ?n"
    by (rule l2_col_norm_nonneg)
  have d: "0 \<le> ?d" "?d \<le> m"
    using n assms(1) by (simp_all add: T_clip_def)
  have "l2_col_norm (mk_array (nrows U) (ncols U) (\<lambda>i j. entry U i j * column_scale m U j)) j =
        ?n * \<bar>?d / (1 / 10 ^ 7 + ?n)\<bar>"
    using l2_col_norm_projected [OF assms(2), of m] by (simp only: column_scale_def)
  also have "\<dots> \<le> ?d"
    using n d(1) by (intro shrink_le) simp_all
  finally show ?thesis
    using d(2) by simp
qed

text \<open>A single entry is bounded by the norm of its column.\<close>

lemma entry_abs_le_col_norm:
  assumes "i < nrows U"
  shows "\<bar>entry U i j\<bar> \<le> l2_col_norm U j"
proof -
  have "(entry U i j)\<^sup>2 \<le> (\<Sum>k<nrows U. (entry U k j)\<^sup>2)"
    using assms by (intro member_le_sum) simp_all
  then have "sqrt ((entry U i j)\<^sup>2) \<le> sqrt (\<Sum>k<nrows U. (entry U k j)\<^sup>2)"
    by (rule real_sqrt_le_mono)
  then show ?thesis
    by (simp add: l2_col_norm_def)
qed

text \<open>A column within the bound is multiplied by \<open>n / (1e-7 + n)\<close>, \<open>n\<close> its norm.\<close>

lemma column_scale_under_bound:
  assumes "l2_col_norm U j \<le> m"
  shows "column_scale m U j = l2_col_norm U j / (1 / 10 ^ 7 + l2_col_norm U j)"
  using assms l2_col_norm_nonneg [of U j] by (simp add: column_scale_def T_clip_def)

lemma guard_change:
  fixes x n e :: real
  assumes "\<bar>x\<bar> \<le> n" and "0 < e"
  shows "\<bar>x * (n / (e + n)) - x\<bar> < e"
proof -
  have n: "0 \<le> n"
    using assms(1) by simp
  then have pos: "0 < e + n"
    using assms(2) by simp
  have "x * (n / (e + n)) - x = - (x * (e / (e + n)))"
    using pos by (simp add: field_simps)
  then have "\<bar>x * (n / (e + n)) - x\<bar> = \<bar>x\<bar> * (e / (e + n))"
    using pos assms(2) by (simp add: abs_mult)
  also have "\<dots> \<le> n * (e / (e + n))"
    using assms pos by (intro mult_right_mono) simp_all
  also have "\<dots> = e * (n / (e + n))"
    by simp
  also have "\<dots> < e * 1"
    using assms(2) pos n by (intro mult_strict_left_mono) (simp_all add: divide_less_eq)
  finally show ?thesis
    by simp
qed

lemma l2_col_norm_example_small: "l2_col_norm example_small 0 = 1"
  by (simp add: l2_col_norm_def example_small_def entry_def lessThan_Suc eval_nat_numeral)

text \<open>
  Claim C4. For every proposed update \<open>U\<close> of the weight matrix and every positive
  \<open>max_col_norm\<close>, \<^verbatim>\<open>censor_updates\<close> replaces the proposal by a matrix of the same shape in
  which the L2 norm of every column is at most \<open>max_col_norm + 1e-7\<close>.
\<close>

theorem censor_updates_col_norm_bound:
  assumes "max_col_norm L = Some m" and "0 < m"
    and "updates (get_params (transformer L)) = Some U"
  shows "\<exists>U'. censor_updates L updates (get_params (transformer L)) = Some U' \<and> wf2 U' \<and>
           nrows U' = nrows U \<and> ncols U' = ncols U \<and>
           (\<forall>j<ncols U'. l2_col_norm U' j \<le> m + 1 / 10 ^ 7)"
proof -
  let ?U' = "mk_array (nrows U) (ncols U) (\<lambda>i j. entry U i j * column_scale m U j)"
  have "censor_updates L updates (get_params (transformer L)) = Some ?U'"
    using censor_updates_result [of L m updates U] assms(1,3) by simp
  moreover have "l2_col_norm ?U' j \<le> m + 1 / 10 ^ 7" if "j < ncols U" for j
    using projected_col_norm_le [of m j U] assms(2) that by simp
  ultimately show ?thesis
    by simp
qed

theorem censor_updates_col_norm_bound_witness:
  "max_col_norm example_layer = Some 2 \<and>
   example_updates (get_params (transformer example_layer)) = Some example_proposed \<and>
   l2_col_norm (the (censor_updates example_layer example_updates example_W_var)) 0
     \<le> 2 + 1 / 10 ^ 7"
proof -
  have m: "max_col_norm example_layer = Some 2"
    by (simp add: example_layer_def)
  have W: "get_params (transformer example_layer) = example_W_var"
    by (simp add: example_layer_def get_params_def)
  have U: "example_updates (get_params (transformer example_layer)) = Some example_proposed"
    by (simp add: W example_updates_def)
  obtain U' where "censor_updates example_layer example_updates example_W_var = Some U'"
    and "ncols U' = ncols example_proposed"
    and "\<forall>j<ncols U'. l2_col_norm U' j \<le> 2 + 1 / 10 ^ 7"
    using censor_updates_col_norm_bound [of example_layer 2 example_updates example_proposed]
      m U unfolding W by auto
  then show ?thesis
    using m U by (simp add: example_proposed_def)
qed

text \<open>
  Claim C5, as stated: a column whose L2 norm is at or below \<open>max_col_norm\<close> is left
  unchanged by \<^verbatim>\<open>censor_updates\<close>. It fails: with a bound of 2, the column \<open>(1, 0)\<close> of norm 1
  is multiplied by \<open>1 / (1e-7 + 1)\<close>, and its entry 1 becomes \<open>10000000 / 10000001\<close>.
\<close>

theorem censor_updates_changes_small_column:
  "max_col_norm example_layer = Some 2 \<and>
   small_updates (get_params (transformer example_layer)) = Some example_small \<and>
   l2_col_norm example_small 0 \<le> 2 \<and>
   entry example_small 0 0 = 1 \<and>
   entry (the (censor_updates example_layer small_updates example_W_var)) 0 0 =
     10000000 / 10000001"
proof -
  have m: "max_col_norm example_layer = Some 2"
    by (simp add: example_layer_def)
  have W: "get_params (transformer example_layer) = example_W_var"
    by (simp add: example_layer_def get_params_def)
  have U: "small_updates (get_params (transformer example_layer)) = Some example_small"
    by (simp add: W small_updates_def)
  have x: "entry example_small 0 0 = 1"
    by (simp add: example_small_def entry_def)
  have s: "column_scale 2 example_small 0 = 10000000 / 10000001"
    by (simp add: column_scale_def l2_col_norm_example_small T_clip_def)
  have "censor_updates example_layer small_updates example_W_var =
        Some (mk_array 2 1 (\<lambda>i j. entry example_small i j * column_scale 2 example_small j))"
    using censor_updates_result [of example_layer 2 small_updates example_small] m U
    by (simp add: W example_small_def)
  then have "entry (the (censor_updates example_layer small_updates example_W_var)) 0 0 =
        10000000 / 10000001"
    by (simp add: x s)
  then show ?thesis
    using m U x by (simp add: l2_col_norm_example_small)
qed

text \<open>
  Claim C5, amended. A column of the proposed matrix \<open>U\<close> whose L2 norm \<open>n\<close> is at or below
  \<open>max_col_norm\<close> is left unchanged up to the guard: \<^verbatim>\<open>censor_updates\<close> keeps the shape of
  \<open>U\<close> and multiplies the column by \<open>n / (1e-7 + n)\<close>, so that each of its entries differs
  from the proposed one by less than \<open>1e-7\<close>.
\<close>

theorem censor_updates_under_bound:
  assumes "max_col_norm L = Some m"
    and "updates (get_params (transformer L)) = Some U"
    and "i < nrows U" and "j < ncols U"
    and "l2_col_norm U j \<le> m"
  shows "\<exists>U'. censor_updates L updates (get_params (transformer L)) = Some U' \<and>
           nrows U' = nrows U \<and> ncols U' = ncols U \<and>
           entry U' i j = entry U i j * (l2_col_norm U j / (1 / 10 ^ 7 + l2_col_norm U j)) \<and>
           \<bar>entry U' i j - entry U i j\<bar> < 1 / 10 ^ 7"
proof -
  let ?n = "l2_col_norm U j"
  let ?U' = "mk_array (nrows U) (ncols U) (\<lambda>i j. entry U i j * column_scale m U j)"
  have res: "censor_updates L updates (get_params (transformer L)) = Some ?U'"
    using censor_updates_result [of L m updates U] assms(1,2) by simp
  have e: "entry ?U' i j = entry U i j * (?n / (1 / 10 ^ 7 + ?n))"
    using assms(3,4) column_scale_under_bound [OF assms(5)] by simp
  have "\<bar>entry U i j * (?n / (1 / 10 ^ 7 + ?n)) - entry U i j\<bar> < 1 / 10 ^ 7"
    by (rule guard_change [OF entry_abs_le_col_norm [OF assms(3)]]) simp
  then show ?thesis
    using res e by simp
qed

theorem censor_updates_under_bound_witness:
  "max_col_norm example_layer = Some 2 \<and>
   small_updates (get_params (transformer example_layer)) = Some example_small \<and>
   l2_col_norm example_small 0 \<le> 2 \<and>
   \<bar>entry (the (censor_updates example_layer small_updates example_W_var)) 0 0 -
      entry example_small 0 0\<bar> < 1 / 10 ^ 7"
proof -
  have m: "max_col_norm example_layer = Some 2"
    by (simp add: example_layer_def)
  have W: "get_params (transformer example_layer) = example_W_var"
    by (simp add: example_layer_def get_params_def)
  have U: "small_updates (get_params (transformer example_layer)) = Some example_small"
    by (simp add: W small_updates_def)
  have i: "0 < nrows example_small" and j: "0 < ncols example_small"
    by (simp_all add: example_small_def)
  have n: "l2_col_norm example_small 0 \<le> 2"
    by (simp add: l2_col_norm_example_small)
  obtain U' where "censor_updates example_layer small_updates example_W_var = Some U'"
    and "\<bar>entry U' 0 0 - entry example_small 0 0\<bar> < 1 / 10 ^ 7"
    using censor_updates_under_bound [of example_layer 2 small_updates example_small 0 0]
      m U i j n unfolding W by auto
  then show ?thesis
    using m U n by simp
qed

text \<open>
  Claim C6, as stated: applying the projection of \<^verbatim>\<open>censor_updates\<close> twice gives the same
  matrix as applying it once. It fails: with a bound of 2 and the column \<open>(1, 0)\<close>, the
  first pass gives the entry \<open>10000000 / 10000001\<close> and the second multiplies it again.
\<close>

theorem censor_updates_not_idempotent:
  "entry (the (censor_updates example_layer small_updates example_W_var)) 0 0 =
     10000000 / 10000001 \<and>
   entry (the (censor_updates example_layer (censor_updates example_layer small_updates)
                 example_W_var)) 0 0 =
     1000000000000000000000 / 1000000200000020000001 \<and>
   censor_updates example_layer (censor_updates example_layer small_updates) \<noteq>
     censor_updates example_layer small_updates"
proof -
  let ?U1 = "mk_array (nrows example_small) (ncols example_small)
               (\<lambda>i j. entry example_small i j * column_scale 2 example_small j)"
  let ?U2 = "mk_array (nrows ?U1) (ncols ?U1) (\<lambda>i j. entry ?U1 i j * column_scale 2 ?U1 j)"
  have shape: "nrows example_small = 2" "ncols example_small = 1"
    by (simp_all add: example_small_def)
  have m: "max_col_norm example_layer = Some 2"
    by (simp add: example_layer_def)
  have W: "get_params (transformer example_layer) = example_W_var"
    by (simp add: example_layer_def get_params_def)
  have x: "entry example_small 0 0 = 1"
    by (simp add: example_small_def entry_def)
  have s: "column_scale 2 example_small 0 = 10000000 / 10000001"
    by (simp add: column_scale_def l2_col_norm_example_small T_clip_def)
  have once: "censor_updates example_layer small_updates = small_updates(example_W_var \<mapsto> ?U1)"
    using censor_updates_result [of example_layer 2 small_updates example_small] m
    by (simp add: W small_updates_def)
  have twice: "censor_updates example_layer (small_updates(example_W_var \<mapsto> ?U1)) =
      (small_updates(example_W_var \<mapsto> ?U1))(example_W_var \<mapsto> ?U2)"
    using censor_updates_result [of example_layer 2 "small_updates(example_W_var \<mapsto> ?U1)" ?U1] m
    by (simp add: W)
  have e1: "entry ?U1 0 0 = 10000000 / 10000001"
    by (simp add: shape x s)
  have "l2_col_norm ?U1 0 = l2_col_norm example_small 0 * \<bar>column_scale 2 example_small 0\<bar>"
    by (rule l2_col_norm_projected) (simp add: shape)
  then have n1: "l2_col_norm ?U1 0 = 10000000 / 10000001"
    by (simp add: l2_col_norm_example_small s)
  have "l2_col_norm ?U1 0 \<le> 2"
    by (simp add: n1)
  then have "column_scale 2 ?U1 0 = l2_col_norm ?U1 0 / (1 / 10 ^ 7 + l2_col_norm ?U1 0)"
    by (rule column_scale_under_bound)
  then have s1: "column_scale 2 ?U1 0 = 100000000000000 / 100000010000001"
    by (simp add: n1)
  have "entry ?U2 0 0 = entry ?U1 0 0 * column_scale 2 ?U1 0"
    by (simp add: shape)
  then have e2: "entry ?U2 0 0 = 1000000000000000000000 / 1000000200000020000001"
    by (simp add: e1 s1)
  have r1: "entry (the (censor_updates example_layer small_updates example_W_var)) 0 0 =
     10000000 / 10000001"
    by (simp only: once fun_upd_same option.sel e1)
  have r2: "entry (the (censor_updates example_layer (censor_updates example_layer small_updates)
                 example_W_var)) 0 0 = 1000000000000000000000 / 1000000200000020000001"
    by (simp only: once twice fun_upd_same option.sel e2)
  have "censor_updates example_layer (censor_updates example_layer small_updates) \<noteq>
     censor_updates example_layer small_updates"
  proof
    assume "censor_updates example_layer (censor_updates example_layer small_updates) =
     censor_updates example_layer small_updates"
    then have "entry (the (censor_updates example_layer (censor_updates example_layer small_updates)
                 example_W_var)) 0 0 =
       entry (the (censor_updates example_layer small_updates example_W_var)) 0 0"
      by simp
    then show False
      by (simp add: r1 r2)
  qed
  then show ?thesis
    using r1 r2 by simp
qed

text \<open>
  Claim C6, amended. For every proposed matrix and every \<open>max_col_norm\<close> that is not
  negative, the second pass of \<^verbatim>\<open>censor_updates\<close> keeps the shape and multiplies column
  \<open>j\<close> of the once-projected matrix by \<open>n / (1e-7 + n)\<close>, \<open>n\<close> the norm of that column, so
  that every entry differs from the once-projected one by less than \<open>1e-7\<close>.
\<close>

theorem censor_updates_twice:
  assumes "max_col_norm L = Some m" and "0 \<le> m"
    and "updates (get_params (transformer L)) = Some U"
    and "i < nrows U" and "j < ncols U"
  shows "\<exists>U1 U2. censor_updates L updates (get_params (transformer L)) = Some U1 \<and>
           censor_updates L (censor_updates L updates) (get_params (transformer L)) = Some U2 \<and>
           nrows U2 = nrows U1 \<and> ncols U2 = ncols U1 \<and>
           entry U2 i j = entry U1 i j * (l2_col_norm U1 j / (1 / 10 ^ 7 + l2_col_norm U1 j)) \<and>
           \<bar>entry U2 i j - entry U1 i j\<bar> < 1 / 10 ^ 7"
proof -
  let ?W = "get_params (transformer L)"
  let ?U1 = "mk_array (nrows U) (ncols U) (\<lambda>i j. entry U i j * column_scale m U j)"
  let ?U2 = "mk_array (nrows ?U1) (ncols ?U1) (\<lambda>i j. entry ?U1 i j * column_scale m ?U1 j)"
  let ?n = "l2_col_norm ?U1 j"
  have once: "censor_updates L updates = updates(?W \<mapsto> ?U1)"
    using censor_updates_result [of L m updates U] assms(1,3) by simp
  have twice: "censor_updates L (updates(?W \<mapsto> ?U1)) = (updates(?W \<mapsto> ?U1))(?W \<mapsto> ?U2)"
    using censor_updates_result [of L m "updates(?W \<mapsto> ?U1)" ?U1] assms(1) by simp
  have le: "?n \<le> m"
    by (rule projected_col_norm_le [OF assms(2,5)])
  have i: "i < nrows ?U1" and j: "j < ncols ?U1"
    using assms(4,5) by simp_all
  have e: "entry ?U2 i j = entry ?U1 i j * (?n / (1 / 10 ^ 7 + ?n))"
    using i j column_scale_under_bound [OF le] by simp
  have "\<bar>entry ?U1 i j * (?n / (1 / 10 ^ 7 + ?n)) - entry ?U1 i j\<bar> < 1 / 10 ^ 7"
    by (rule guard_change [OF entry_abs_le_col_norm [OF i]]) simp
  then have d: "\<bar>entry ?U2 i j - entry ?U1 i j\<bar> < 1 / 10 ^ 7"
    by (simp only: e)
  have "censor_updates L updates ?W = Some ?U1"
    by (simp add: once)
  moreover have "censor_updates L (censor_updates L updates) ?W = Some ?U2"
    by (simp only: once twice) simp
  moreover have "nrows ?U2 = nrows ?U1" "ncols ?U2 = ncols ?U1"
    by simp_all
  ultimately show ?thesis
    using e d by blast
qed

theorem censor_updates_twice_witness:
  "max_col_norm example_layer = Some 2 \<and>
   example_updates (get_params (transformer example_layer)) = Some example_proposed \<and>
   \<bar>entry (the (censor_updates example_layer (censor_updates example_layer example_updates)
                  example_W_var)) 1 0 -
      entry (the (censor_updates example_layer example_updates example_W_var)) 1 0\<bar>
     < 1 / 10 ^ 7"
proof -
  have m: "max_col_norm example_layer = Some 2"
    by (simp add: example_layer_def)
  have W: "get_params (transformer example_layer) = example_W_var"
    by (simp add: example_layer_def get_params_def)
  have U: "example_updates (get_params (transformer example_layer)) = Some example_proposed"
    by (simp add: W example_updates_def)
  have i: "1 < nrows example_proposed" and j: "0 < ncols example_proposed"
    by (simp_all add: example_proposed_def)
  obtain U1 U2 where "censor_updates example_layer example_updates example_W_var = Some U1"
    and "censor_updates example_layer (censor_updates example_layer example_updates)
           example_W_var = Some U2"
    and "\<bar>entry U2 1 0 - entry U1 1 0\<bar> < 1 / 10 ^ 7"
    using censor_updates_twice [of example_layer 2 example_updates example_proposed 1 0]
      m U i j unfolding W by auto
  then show ?thesis
    using m U by simp
qed

section \<open>Bias initialisation of the visible layer\<close>

lemma mean_mixed: "mean_axis0 (get_design_matrix mixed_dataset) = [1 / 6]"
  by (simp add: mean_axis0_def mixed_dataset_def mk_vec_def entry_def lessThan_Suc
      eval_nat_numeral)

text \<open>The outcome of \<^verbatim>\<open>init_tanh_bias_from_marginals\<close> on a design matrix with entries
  \<open>xs\<close>: only the largest and the smallest entry are looked at.\<close>

lemma init_tanh_bias_cases:
  fixes ds :: dataset
  defines "xs \<equiv> concat (rows (get_design_matrix ds))"
  shows "init_tanh_bias_from_marginals ds False =
     (if xs = [] then Inl ZeroSizeArray
      else if Max (set xs) \<noteq> 1 then Inl (ExpectedBinaryMax (Max (set xs)))
      else if Min (set xs) \<noteq> - 1 then Inl AssertionError
      else Inr (map artanh (map (\<lambda>m. np_clip m (1 / 10 ^ 7) (1 - 1 / 10 ^ 7))
                  (mean_axis0 (get_design_matrix ds)))))"
  by (simp add: init_tanh_bias_from_marginals_def and_then_def np_max_def np_min_def xs_def
      Let_def)

text \<open>
  Claim C7, as stated: a marginal dataset whose design matrix contains any value other
  than \<open>-1\<close> or \<open>+1\<close> makes the construction of the visible bias raise. It fails: the
  design matrix with the entries \<open>-1\<close>, \<open>0.5\<close>, \<open>1\<close> has maximum 1 and minimum \<open>-1\<close>, passes
  both checks, and the bias tensor is created with the value \<open>arctanh(1/6)\<close>.
\<close>

theorem visible_bias_accepts_interior_value:
  "entry (get_design_matrix mixed_dataset) 1 0 = 1 / 2 \<and>
   IsingVisible_init 1 (Some mixed_dataset) [] =
     (Inr \<lparr>nvis = 1, space = VectorSpace 1, visible_input_space = VectorSpace 1,
            bias = \<lparr>name = Some ''visible_bias'', get_value = [artanh (1 / 6)]\<rparr>\<rparr>,
      [Some ''visible_bias''])"
proof -
  have "init_tanh_bias_from_marginals mixed_dataset False = Inr [artanh (1 / 6)]"
    by (simp add: init_tanh_bias_from_marginals_def and_then_def np_max_def np_min_def
        mean_mixed np_clip_def) (simp add: mixed_dataset_def)
  then show ?thesis
    by (simp add: IsingVisible_init_def sharedX_def) (simp add: mixed_dataset_def entry_def)
qed

text \<open>
  Claim C7, amended. Constructing the bias of a visible layer from a marginal dataset
  raises, before any bias tensor is created (the log of created tensors is as it was),
  when the design matrix has no entry (numpy's \<^verbatim>\<open>ValueError\<close>), when its largest entry
  is not 1 (the \<^verbatim>\<open>ValueError\<close> of the binary-data check) and when its largest entry is 1
  and its smallest is not \<open>-1\<close> (an assertion failure). When the largest entry is 1 and
  the smallest \<open>-1\<close> the construction succeeds and creates the tensor \<^verbatim>\<open>visible_bias\<close>,
  whatever the other entries are.
\<close>

theorem visible_bias_from_marginals_raises:
  fixes ds :: dataset
  defines "xs \<equiv> concat (rows (get_design_matrix ds))"
  shows "(xs = [] \<longrightarrow> IsingVisible_init n (Some ds) created = (Inl ZeroSizeArray, created)) \<and>
    (xs \<noteq> [] \<and> Max (set xs) \<noteq> 1 \<longrightarrow>
       IsingVisible_init n (Some ds) created = (Inl (ExpectedBinaryMax (Max (set xs))), created)) \<and>
    (xs \<noteq> [] \<and> Max (set xs) = 1 \<and> Min (set xs) \<noteq> - 1 \<longrightarrow>
       IsingVisible_init n (Some ds) created = (Inl AssertionError, created)) \<and>
    (xs \<noteq> [] \<and> Max (set xs) = 1 \<and> Min (set xs) = - 1 \<longrightarrow>
       (\<exists>layer. IsingVisible_init n (Some ds) created =
          (Inr layer, created @ [Some ''visible_bias''])))"
  unfolding xs_def
  by (simp add: IsingVisible_init_def init_tanh_bias_cases sharedX_def)

theorem visible_bias_from_marginals_raises_witness:
  "entry (get_design_matrix half_dataset) 1 0 = 1 / 2 \<and>
   Max (set (concat (rows (get_design_matrix half_dataset)))) = 1 / 2 \<and>
   IsingVisible_init 1 (Some half_dataset) [] = (Inl (ExpectedBinaryMax (1 / 2)), [])"
proof -
  have xs: "concat (rows (get_design_matrix half_dataset)) = [- 1, 1 / 2]"
    by (simp add: half_dataset_def)
  have mx: "Max (set (concat (rows (get_design_matrix half_dataset)))) = 1 / 2"
    unfolding xs by simp
  have e: "entry (get_design_matrix half_dataset) 1 0 = 1 / 2"
    by (simp add: half_dataset_def entry_def)
  have "concat (rows (get_design_matrix half_dataset)) \<noteq> [] \<and>
        Max (set (concat (rows (get_design_matrix half_dataset)))) \<noteq> 1"
    unfolding xs by simp
  then have "IsingVisible_init 1 (Some half_dataset) [] =
      (Inl (ExpectedBinaryMax (Max (set (concat (rows (get_design_matrix half_dataset)))))), [])"
    using visible_bias_from_marginals_raises [of half_dataset 1 "[]"] by blast
  then show ?thesis
    using e mx by simp
qed

section \<open>Sampling needs a random source\<close>

text \<open>
  Claim C8. Whatever the layer and the other arguments, \<^verbatim>\<open>sample\<close> called without a
  random source (\<^verbatim>\<open>theano_rng\<close> is \<open>None\<close>) raises the \<^verbatim>\<open>ValueError\<close> that asks for one; no
  sample is drawn from any default generator.
\<close>

theorem sample_requires_rng:
  "sample L state_below state_above layer_above None = Inl RngRequired"
  by (simp add: sample_def)

section \<open>Weight initialisation at setup time\<close>

lemma map2d_zeros: "map2d (\<lambda>x. x * s) (np_zeros2 r c) = mk_array r c (\<lambda>i j. 0)"
  unfolding map2d_def np_zeros2_def nrows_mk_array ncols_mk_array
  by (rule mk_array_cong) simp

text \<open>
  Claim C9. \<^verbatim>\<open>set_input_space\<close> succeeds exactly when the layer is attached to a model and
  one of \<^verbatim>\<open>irange\<close> and \<^verbatim>\<open>sparse_init\<close> is set and the other is not; on an attached layer
  with both set or with neither set it fails with an assertion failure, and no tensor is
  created.
\<close>

theorem set_input_space_exactly_one:
  "((\<exists>L'. fst (set_input_space L sp created) = Inr L') \<longleftrightarrow>
      dbm L \<noteq> None \<and> (irange L = None) \<noteq> (sparse_init L = None)) \<and>
   (dbm L \<noteq> None \<and> (irange L = None) = (sparse_init L = None) \<longrightarrow>
      set_input_space L sp created = (Inl AssertionError, created))"
  by (auto simp add: set_input_space_def Let_def sharedX_def get_params_def rng_uniform_def
      split: option.splits)

theorem set_input_space_exactly_one_witness:
  "dbm both_config \<noteq> None \<and> irange both_config \<noteq> None \<and> sparse_init both_config \<noteq> None \<and>
   set_input_space both_config (VectorSpace 2) [Some ''h1_b''] =
     (Inl AssertionError, [Some ''h1_b''])"
proof -
  have h: "dbm both_config \<noteq> None" "irange both_config \<noteq> None" "sparse_init both_config \<noteq> None"
    by (simp_all add: both_config_def IsingHidden_init_def sharedX_def)
  have pre: "dbm both_config \<noteq> None \<and>
      (irange both_config = None) = (sparse_init both_config = None)"
    using h by auto
  from set_input_space_exactly_one [of both_config "VectorSpace 2" "[Some ''h1_b'']"]
  have "dbm both_config \<noteq> None \<and>
      (irange both_config = None) = (sparse_init both_config = None) \<longrightarrow>
      set_input_space both_config (VectorSpace 2) [Some ''h1_b''] =
        (Inl AssertionError, [Some ''h1_b''])"
    by (rule conjunct2)
  with pre have "set_input_space both_config (VectorSpace 2) [Some ''h1_b''] =
        (Inl AssertionError, [Some ''h1_b''])"
    by (rule rev_mp)
  with h show ?thesis
    by simp
qed

text \<open>
  Claim C10. On a layer configured with \<^verbatim>\<open>sparse_init\<close> (and without \<^verbatim>\<open>irange\<close>), whatever
  \<^verbatim>\<open>sparse_stdev\<close> is, \<^verbatim>\<open>set_input_space\<close> succeeds and the weight matrix it creates is
  the zero matrix of shape \<open>(input_dim, dim)\<close>.
\<close>

theorem sparse_init_gives_zero_weights:
  assumes "dbm L = Some model" and "irange L = None" and "sparse_init L = Some k"
  shows "\<exists>L'. set_input_space L sp created = (Inr L', created @ [None]) \<and>
           input_dim L' = (case vector_dim sp of Some d \<Rightarrow> d | None \<Rightarrow> get_total_dimension sp) \<and>
           dim L' = dim L \<and>
           get_value (get_params (transformer L')) = mk_array (input_dim L') (dim L') (\<lambda>i j. 0)"
  using assms
  by (simp add: set_input_space_def Let_def sharedX_def get_params_def map2d_zeros
      IsingHidden.extend_def IsingHidden_setup.fields_def)

theorem sparse_init_gives_zero_weights_witness:
  "sparse_stdev sparse_config = 3 \<and>
   (\<exists>L'. set_input_space sparse_config (VectorSpace 2) [Some ''h1_b''] =
           (Inr L', [Some ''h1_b'', None]) \<and>
         get_value (get_params (transformer L')) = mk_array 2 1 (\<lambda>i j. 0))"
proof -
  have h: "dbm sparse_config = Some attached" "irange sparse_config = None"
    "sparse_init sparse_config = Some 15" "sparse_stdev sparse_config = 3" "dim sparse_config = 1"
    by (simp_all add: sparse_config_def IsingHidden_init_def sharedX_def)
  show ?thesis
    using sparse_init_gives_zero_weights [OF h(1,2,3), of "VectorSpace 2" "[Some ''h1_b'']"] h(4,5)
    by (auto simp add: VectorSpace_def)
qed

section \<open>The linear transform and the shapes of a layer\<close>

text \<open>The forward product \<open>x \<cdot> W\<close> and the transposed product \<open>x \<cdot> W\<^sup>T\<close>, entry by entry.\<close>

lemma lmul_entries:
  assumes "layer_ok L" and "ncols sb = input_dim L"
  shows "lmul (transformer L) (Design sb) =
         Inr (mk_array (nrows sb) (dim L)
                (\<lambda>i j. \<Sum>k<input_dim L. entry sb i k * entry (weights L) k j))"
  using assms by (simp add: lmul_def T_dot_def layer_ok_def weights_def get_params_def)

lemma lmul_T_entries:
  assumes "layer_ok L" and "ncols x = dim L"
  shows "lmul_T (transformer L) x =
         Inr (mk_array (nrows x) (input_dim L)
                (\<lambda>i j. \<Sum>k<dim L. entry x i k * entry (weights L) j k))"
proof -
  have "mk_array (nrows x) (input_dim L)
          (\<lambda>i j. \<Sum>k<dim L. entry x i k * entry (transpose2 (weights L)) k j) =
        mk_array (nrows x) (input_dim L)
          (\<lambda>i j. \<Sum>k<dim L. entry x i k * entry (weights L) j k)"
    using assms(1) by (intro mk_array_cong sum.cong) (simp_all add: transpose2_def layer_ok_def)
  then show ?thesis
    using assms by (simp add: lmul_T_def T_dot_def layer_ok_def weights_def get_params_def transpose2_def)
qed

text \<open>The transposed product is the adjoint of the forward product: pairing the forward
  image of \<open>sb\<close> with \<open>x\<close> is pairing \<open>sb\<close> with the transposed image of \<open>x\<close>.\<close>

lemma lmul_T_adjoint:
  "(\<Sum>i<n. \<Sum>j<d. (\<Sum>k<m. sb i k * W k j) * x i j) =
   (\<Sum>i<n. \<Sum>k<m. sb i k * (\<Sum>j<d. x i j * W k j))" for sb W x :: "nat \<Rightarrow> nat \<Rightarrow> real"
proof (rule sum.cong [OF refl])
  fix i
  have "(\<Sum>j<d. (\<Sum>k<m. sb i k * W k j) * x i j) = (\<Sum>j<d. \<Sum>k<m. sb i k * (x i j * W k j))"
    by (simp add: sum_distrib_left sum_distrib_right mult_ac)
  also have "\<dots> = (\<Sum>k<m. \<Sum>j<d. sb i k * (x i j * W k j))"
    by (rule sum.swap)
  also have "\<dots> = (\<Sum>k<m. sb i k * (\<Sum>j<d. x i j * W k j))"
    by (simp add: sum_distrib_left)
  finally show "(\<Sum>j<d. (\<Sum>k<m. sb i k * W k j) * x i j) =
    (\<Sum>k<m. sb i k * (\<Sum>j<d. x i j * W k j))" .
qed

lemma layer_ok_example: "layer_ok example_layer"
  by (simp add: layer_ok_def weights_def biases_def example_layer_def example_W_var_def
      get_params_def wf2_def)

lemma validate_example:
  "validate_and_reformat example_layer [] (Design example_below) = Inr (Design example_below)"
  by (simp add: validate_and_reformat_def example_layer_def VectorSpace_def)

lemma init_bias_length:
  "length (get_value (self_b (fst (IsingHidden_init d nm ir si sd ip ib wl bl mc created)))) = d"
  by (simp add: IsingHidden_init_def sharedX_def np_zeros1_def)

lemma set_input_space_layer_ok:
  assumes "set_input_space L sp created = (Inr L', created')"
    and "length (get_value (self_b L)) = dim L"
  shows "layer_ok L'"
  using assms
  by (auto simp add: set_input_space_def Let_def sharedX_def get_params_def rng_uniform_def
      layer_ok_def weights_def biases_def map2d_def np_zeros2_def
      IsingHidden.extend_def IsingHidden_setup.fields_def
      split: option.splits if_splits)

text \<open>What the opening statements give on a flat input space: the batch itself.\<close>

lemma validate_and_reformat_flat:
  assumes "\<not> requires_reformat L" and "validate (input_space L) state_below = None"
  shows "validate_and_reformat L debug_shapes state_below = Inr state_below"
  using assms by (simp add: validate_and_reformat_def)

section \<open>The energy term\<close>

text \<open>
  Claim C1. Let the layer have weights \<open>W\<close> and bias \<open>b\<close>, let \<open>state_below\<close> pass the
  opening validation (and reformatting) as the design matrix \<open>sb\<close> of \<open>input_dim\<close> columns,
  and let \<open>state\<close> have as many rows as \<open>sb\<close> and \<open>dim\<close> columns. Then
  \<^verbatim>\<open>expected_energy_term\<close> returns, for example \<open>i\<close>,
  \<open>- (state\<^sub>i \<cdot> b) - \<Sum>\<^sub>j (sb \<cdot> W)\<^sub>i\<^sub>j * state\<^sub>i\<^sub>j\<close>, whatever the two averaging flags are.
\<close>

theorem expected_energy_term_value:
  assumes "layer_ok L"
    and "validate_and_reformat L debug_shapes state_below = Inr (Design sb)"
    and "ncols sb = input_dim L"
    and "nrows state = nrows sb" and "ncols state = dim L"
  shows "expected_energy_term L debug_shapes state average state_below average_below =
    Inr (mk_vec (nrows state)
      (\<lambda>i. - (\<Sum>j<dim L. entry state i j * biases L ! j) -
            (\<Sum>j<dim L. (\<Sum>k<input_dim L. entry sb i k * entry (weights L) k j) *
                           entry state i j)))"
proof -
  have b: "length (get_value (self_b L)) = dim L"
    using assms(1) by (simp add: layer_ok_def biases_def)
  have bias_term: "T_dot_vec state (get_value (self_b L)) =
      Inr (mk_vec (nrows state) (\<lambda>i. \<Sum>j<dim L. entry state i j * biases L ! j))"
    using b assms(5) by (simp add: T_dot_vec_def biases_def)
  have prod: "T_mul (mk_array (nrows sb) (dim L)
                (\<lambda>i j. \<Sum>k<input_dim L. entry sb i k * entry (weights L) k j)) state =
      Inr (mk_array (nrows state) (dim L)
             (\<lambda>i j. (\<Sum>k<input_dim L. entry sb i k * entry (weights L) k j) * entry state i j))"
    using assms(4,5) by (simp add: T_mul_def same_shape_def)
  have "T_sub_vec
      (map uminus (mk_vec (nrows state) (\<lambda>i. \<Sum>j<dim L. entry state i j * biases L ! j)))
      (sum_axis1 (mk_array (nrows state) (dim L)
             (\<lambda>i j. (\<Sum>k<input_dim L. entry sb i k * entry (weights L) k j) * entry state i j))) =
    Inr (mk_vec (nrows state)
      (\<lambda>i. - (\<Sum>j<dim L. entry state i j * biases L ! j) -
            (\<Sum>j<dim L. (\<Sum>k<input_dim L. entry sb i k * entry (weights L) k j) *
                           entry state i j)))"
    by (simp add: T_sub_vec_def sum_axis1_def)
  then show ?thesis
    by (simp only: expected_energy_term_def assms(2) and_then_def bias_term
      lmul_entries [OF assms(1,3)] prod Let_def sum.case)
qed

theorem expected_energy_term_value_witness:
  "layer_ok example_layer \<and>
   expected_energy_term example_layer [] example_state True (Design example_below) False =
     Inr [4] \<and>
   expected_energy_term example_layer [] example_state False (Design example_below) True =
     Inr [4]"
proof -
  have d: "ncols example_below = input_dim example_layer"
    "nrows example_state = nrows example_below" "ncols example_state = dim example_layer"
    by (simp_all add: example_below_def example_state_def example_layer_def)
  have v: "mk_vec (nrows example_state)
      (\<lambda>i. - (\<Sum>j<dim example_layer. entry example_state i j * biases example_layer ! j) -
            (\<Sum>j<dim example_layer.
               (\<Sum>k<input_dim example_layer.
                  entry example_below i k * entry (weights example_layer) k j) *
               entry example_state i j)) = [4]"
    by (simp add: mk_vec_def example_state_def example_below_def example_layer_def
        example_W_var_def weights_def biases_def get_params_def entry_def lessThan_Suc
        eval_nat_numeral)
  show ?thesis
    using expected_energy_term_value [OF layer_ok_example validate_example d, of True False]
      expected_energy_term_value [OF layer_ok_example validate_example d, of False True]
    by (simp only: v layer_ok_example simp_thms)
qed

section \<open>The mean-field update\<close>

text \<open>The update for a message \<open>msg\<close> already obtained from the layer above.\<close>

lemma mf_update_with_message:
  assumes "layer_ok L"
    and "validate_and_reformat L debug_shapes state_below = Inr (Design sb)"
    and "ncols sb = input_dim L"
    and "message_for_mf_update state_above layer_above = Inr msg"
    and "case msg of None \<Rightarrow> True | Some m \<Rightarrow> nrows m = nrows sb \<and> ncols m = dim L"
  shows "mf_update L debug_shapes state_below state_above layer_above False iter_name =
    Inr (mk_array (nrows sb) (dim L)
      (\<lambda>i j. tanh ((\<Sum>k<input_dim L. entry sb i k * entry (weights L) k j) + biases L ! j +
                     (case msg of None \<Rightarrow> 0 | Some m \<Rightarrow> entry m i j))))"
proof -
  let ?wx = "\<lambda>i j. \<Sum>k<input_dim L. entry sb i k * entry (weights L) k j"
  have b: "length (get_value (self_b L)) = dim L"
    using assms(1) by (simp add: layer_ok_def biases_def)
  have z: "T_add_row (mk_array (nrows sb) (dim L) ?wx) (get_value (self_b L)) =
      Inr (mk_array (nrows sb) (dim L) (\<lambda>i j. ?wx i j + biases L ! j))"
    unfolding biases_def by (rule T_add_row_entries [OF b])
  have start: "mf_update L debug_shapes state_below state_above layer_above False iter_name =
      and_then (case msg of None \<Rightarrow> Inr (mk_array (nrows sb) (dim L) (\<lambda>i j. ?wx i j + biases L ! j))
                | Some m \<Rightarrow> T_add (mk_array (nrows sb) (dim L) (\<lambda>i j. ?wx i j + biases L ! j)) m)
        (\<lambda>z. Inr (map2d tanh z))"
    by (simp only: mf_update_def assms(2,4) and_then_def lmul_entries [OF assms(1,3)] z Let_def
        sum.case if_False)
  show ?thesis
  proof (cases msg)
    case None
    then show ?thesis
      by (simp add: start and_then_def map2d_mk_array)
  next
    case (Some m)
    then have "nrows m = nrows sb" and "ncols m = dim L"
      using assms(5) by simp_all
    then have "T_add (mk_array (nrows sb) (dim L) (\<lambda>i j. ?wx i j + biases L ! j)) m =
        Inr (mk_array (nrows sb) (dim L) (\<lambda>i j. ?wx i j + biases L ! j + entry m i j))"
      by (rule T_add_entries)
    then show ?thesis
      using Some by (simp add: start and_then_def map2d_mk_array)
  qed
qed

text \<open>
  Claim C2. Let \<open>state_below\<close> pass the opening validation (and reformatting) as the design
  matrix \<open>sb\<close> of \<open>input_dim\<close> columns. With \<^verbatim>\<open>double_weights=False\<close>, \<^verbatim>\<open>mf_update\<close> returns
  \<open>tanh (sb \<cdot> W + b)\<close>, entry by entry, when \<open>state_above\<close> is \<open>None\<close>; and when \<open>state_above\<close>
  is the state \<open>sa\<close> of the layer above \<open>la\<close>, whose \<^verbatim>\<open>downward_message(sa)\<close> is the matrix
  \<open>m\<close> of the shape of this layer's states, it returns \<open>tanh (sb \<cdot> W + b + m)\<close>. The value is
  a function of the arguments and the parameters alone: no random source is taken.
\<close>

theorem mf_update_value:
  assumes "layer_ok L"
    and "validate_and_reformat L debug_shapes state_below = Inr (Design sb)"
    and "ncols sb = input_dim L"
  shows "mf_update L debug_shapes state_below None layer_above False iter_name =
      Inr (mk_array (nrows sb) (dim L)
        (\<lambda>i j. tanh ((\<Sum>k<input_dim L. entry sb i k * entry (weights L) k j) +
                      biases L ! j))) \<and>
    (above_downward_message la sa = Inr m \<and> nrows m = nrows sb \<and> ncols m = dim L \<longrightarrow>
     mf_update L debug_shapes state_below (Some sa) (Some la) False iter_name =
      Inr (mk_array (nrows sb) (dim L)
        (\<lambda>i j. tanh ((\<Sum>k<input_dim L. entry sb i k * entry (weights L) k j) +
                      biases L ! j + entry m i j))))"
proof (intro conjI impI)
  have "message_for_mf_update None layer_above = Inr None"
    by (simp add: message_for_mf_update_def)
  from mf_update_with_message [OF assms this, of iter_name]
  show "mf_update L debug_shapes state_below None layer_above False iter_name =
      Inr (mk_array (nrows sb) (dim L)
        (\<lambda>i j. tanh ((\<Sum>k<input_dim L. entry sb i k * entry (weights L) k j) +
                      biases L ! j)))"
    by simp
next
  assume above: "above_downward_message la sa = Inr m \<and> nrows m = nrows sb \<and> ncols m = dim L"
  then have msg: "message_for_mf_update (Some sa) (Some la) = Inr (Some m)"
    by (simp add: message_for_mf_update_def and_then_def)
  have shape: "case Some m of None \<Rightarrow> True | Some m \<Rightarrow> nrows m = nrows sb \<and> ncols m = dim L"
    using above by simp
  from mf_update_with_message [OF assms msg shape, of iter_name]
  show "mf_update L debug_shapes state_below (Some sa) (Some la) False iter_name =
      Inr (mk_array (nrows sb) (dim L)
        (\<lambda>i j. tanh ((\<Sum>k<input_dim L. entry sb i k * entry (weights L) k j) +
                      biases L ! j + entry m i j)))"
    by simp
qed

theorem mf_update_value_witness:
  "layer_ok example_layer \<and>
   above_downward_message example_above (1 / 2) =
     Inr \<lparr>nrows = 2, ncols = 1, rows = [[1 / 2], [- (1 / 2)]]\<rparr> \<and>
   mf_update example_layer [] (Design example_below2) (Some (1 / 2)) (Some example_above) False
       None =
     Inr \<lparr>nrows = 2, ncols = 1, rows = [[tanh (9 / 2)], [tanh (- (1 / 2))]]\<rparr>"
proof -
  let ?m = "\<lparr>nrows = 2, ncols = 1, rows = [[1 / 2], [- (1 / 2) :: real]]\<rparr>"
  have v2: "validate_and_reformat example_layer [] (Design example_below2) =
      Inr (Design example_below2)"
    by (simp add: validate_and_reformat_def example_layer_def VectorSpace_def)
  have d: "ncols example_below2 = input_dim example_layer"
    by (simp add: example_below2_def example_layer_def)
  have above: "above_downward_message example_above (1 / 2) = Inr ?m \<and>
      nrows ?m = nrows example_below2 \<and> ncols ?m = dim example_layer"
    by (simp add: example_above_def example_below2_def example_layer_def)
  have v: "mk_array (nrows example_below2) (dim example_layer)
      (\<lambda>i j. tanh ((\<Sum>k<input_dim example_layer.
                       entry example_below2 i k * entry (weights example_layer) k j) +
                    biases example_layer ! j + entry ?m i j)) =
      \<lparr>nrows = 2, ncols = 1, rows = [[tanh (9 / 2)], [tanh (- (1 / 2))]]\<rparr>"
    by (simp add: mk_array_def example_below2_def example_layer_def
        example_W_var_def weights_def biases_def get_params_def entry_def lessThan_Suc
        eval_nat_numeral upt_rec)
  from mf_update_value [OF layer_ok_example v2 d, of None None example_above "1 / 2" ?m]
  have "mf_update example_layer [] (Design example_below2) (Some (1 / 2)) (Some example_above)
      False None =
    Inr (mk_array (nrows example_below2) (dim example_layer)
      (\<lambda>i j. tanh ((\<Sum>k<input_dim example_layer.
                       entry example_below2 i k * entry (weights example_layer) k j) +
                    biases example_layer ! j + entry ?m i j)))"
    using above by blast
  then show ?thesis
    using above by (simp only: v layer_ok_example simp_thms)
qed

section \<open>The downward message\<close>

text \<open>
  Claim C3. For a state batch \<open>x\<close> of \<open>dim\<close> columns, \<^verbatim>\<open>downward_message\<close> computes the
  product \<open>x \<cdot> W\<^sup>T\<close>, whose entry \<open>(i, j)\<close> is \<open>\<Sum>\<^sub>k x\<^sub>i\<^sub>k * W\<^sub>j\<^sub>k\<close> with the same \<open>W\<close> the forward
  product \<open>(sb \<cdot> W)\<^sub>i\<^sub>j = \<Sum>\<^sub>k sb\<^sub>i\<^sub>k * W\<^sub>k\<^sub>j\<close> uses. On a flat input space it returns this
  matrix; on another input space it returns this matrix formatted by the space into its
  own layout.
\<close>

theorem downward_message_value:
  assumes "layer_ok L" and "ncols x = dim L"
  shows "downward_message L x =
    (let xWT = mk_array (nrows x) (input_dim L)
                 (\<lambda>i j. \<Sum>k<dim L. entry x i k * entry (weights L) j k)
     in if requires_reformat L then format_from_vector (input_space L) (Design xWT)
        else Inr (Design xWT))"
  by (simp only: downward_message_def lmul_T_entries [OF assms] and_then_def sum.case Let_def)

theorem downward_message_value_witness:
  "layer_ok example_layer \<and>
   downward_message example_layer example_state =
     Inr (Design \<lparr>nrows = 1, ncols = 2, rows = [[- 1, - 2]]\<rparr>)"
proof -
  have d: "ncols example_state = dim example_layer"
    by (simp add: example_state_def example_layer_def)
  have r: "\<not> requires_reformat example_layer"
    by (simp add: example_layer_def)
  have v: "mk_array (nrows example_state) (input_dim example_layer)
      (\<lambda>i j. \<Sum>k<dim example_layer. entry example_state i k * entry (weights example_layer) j k) =
      \<lparr>nrows = 1, ncols = 2, rows = [[- 1, - 2]]\<rparr>"
    by (simp add: mk_array_def example_state_def example_layer_def
        example_W_var_def weights_def get_params_def entry_def lessThan_Suc
        eval_nat_numeral upt_rec)
  show ?thesis
    using downward_message_value [OF layer_ok_example d] r
    by (simp only: v layer_ok_example simp_thms Let_def if_False)
qed

end
